theory Spec2Isabelle
  imports Main "HOL-Library.Word" "HOL-Library.FSet"
begin

section \<open>Common conventions\<close>

text \<open>
  A C++ pointer is an address, a natural number; the null pointer is the address 0.
  Results of calls that can leave defined behaviour are sums: \<open>Inl\<close> carries the
  reason, \<open>Inr\<close> the value the call returns together with the state it leaves.
\<close>

type_synonym ptr = nat

definition NULL :: ptr where
  "NULL = 0"

datatype fault =
    LockBusy \<comment> \<open>\<open>Lock::acquire\<close> on a lock that is held: the call spins and does not return\<close>
  | NoReturnValue \<comment> \<open>control reaches the end of a non-void function without a \<open>return\<close>\<close>
  | EndDereferenced \<comment> \<open>the past-the-end iterator of a container is dereferenced\<close>
  | InvalidPointer \<comment> \<open>a pointer that refers to no live object is dereferenced\<close>

text \<open>
  Modelled from the spec: the class \<open>Lock\<close>, declared in \<open>atomic.hpp\<close>, which is
  not among the files verified here; it is the exclusive lock of the spec. A lock is a
  busy flag: \<open>tryAcquire\<close> takes the lock when it is free and answers whether it did,
  \<open>acquire\<close> returns only once it has taken the lock, \<open>release\<close> frees it.
\<close>

definition Lock_tryAcquire :: "bool \<Rightarrow> bool \<times> bool" where
  "Lock_tryAcquire l = (if l then (False, l) else (True, True))"

definition Lock_acquire :: "bool \<Rightarrow> fault + bool" where
  "Lock_acquire l = (if l then Inl LockBusy else Inr True)"

definition Lock_release :: "bool \<Rightarrow> bool" where
  "Lock_release l = False"


section \<open>Cluster request queue (\<open>arch/cluster/requestqueue.hpp\<close>)\<close>

text \<open>
  \<open>RequestQueue<T>\<close> holds a \<open>std::list<T *>\<close> and a lock. The field \<open>rq_lock\<close>
  tells whether the lock is held when a member function is entered.
\<close>

record RequestQueue =
  rq_queue :: "ptr list"
  rq_lock :: bool

definition RequestQueue_add :: "RequestQueue \<Rightarrow> ptr \<Rightarrow> fault + RequestQueue" where
  "RequestQueue_add q elem =
     (case Lock_acquire (rq_lock q) of
        Inl f \<Rightarrow> Inl f
      | Inr l \<Rightarrow>
          (let q1 = q\<lparr>rq_lock := l\<rparr>;
               q2 = q1\<lparr>rq_queue := rq_queue q1 @ [elem]\<rparr>
           in Inr (q2\<lparr>rq_lock := Lock_release (rq_lock q2)\<rparr>)))"

text \<open>
  \<open>fetch\<close> initialises \<open>elem\<close>, takes and releases the lock, and ends: its whole
  body between the two lock calls is commented out and it has no \<open>return\<close> statement.
\<close>

definition RequestQueue_fetch :: "RequestQueue \<Rightarrow> fault + (ptr \<times> RequestQueue)" where
  "RequestQueue_fetch q =
     (let elem = NULL in
      case Lock_acquire (rq_lock q) of
        Inl f \<Rightarrow> Inl f
      | Inr l \<Rightarrow>
          (let q1 = q\<lparr>rq_lock := l\<rparr>;
               q2 = q1\<lparr>rq_lock := Lock_release (rq_lock q1)\<rparr>
           in Inl NoReturnValue))"

definition RequestQueue_tryFetch :: "RequestQueue \<Rightarrow> ptr \<times> RequestQueue" where
  "RequestQueue_tryFetch q =
     (let elem = NULL;
          (got, l) = Lock_tryAcquire (rq_lock q);
          q1 = q\<lparr>rq_lock := l\<rparr>
      in if got then
           (let (elem1, q2) =
                  (if rq_queue q1 \<noteq> []
                   then (hd (rq_queue q1), q1\<lparr>rq_queue := tl (rq_queue q1)\<rparr>)
                   else (elem, q1))
            in (elem1, q2\<lparr>rq_lock := Lock_release (rq_lock q2)\<rparr>))
         else (elem, q1))"


text \<open>
  \<open>RequestMap<T>\<close> holds a \<open>std::map<uint64_t, T *>\<close> and a lock. The map is the
  list of its entries in ascending key order, which is the order its iterators follow. An
  iterator is a position in that list; \<open>end()\<close> is the position after the last entry.
\<close>

record RequestMap =
  rm_map :: "(64 word \<times> ptr) list"
  rm_lock :: bool

definition map_end :: "(64 word \<times> ptr) list \<Rightarrow> nat" where
  "map_end m = length m"

definition map_lower_bound :: "(64 word \<times> ptr) list \<Rightarrow> 64 word \<Rightarrow> nat" where
  "map_lower_bound m key = length (takeWhile (\<lambda>kv. fst kv < key) m)"

definition map_deref :: "(64 word \<times> ptr) list \<Rightarrow> nat \<Rightarrow> fault + (64 word \<times> ptr)" where
  "map_deref m it = (if it < length m then Inr (m ! it) else Inl EndDereferenced)"

text \<open>
  \<open>std::map::insert(hint, value)\<close> adds the entry unless its key is there already;
  the hint changes only the cost.
\<close>

definition map_insert :: "(64 word \<times> ptr) list \<Rightarrow> nat \<Rightarrow> 64 word \<times> ptr \<Rightarrow> (64 word \<times> ptr) list" where
  "map_insert m hint kv = (if fst kv \<in> fst ` set m then m else insort_key fst kv m)"

text \<open>
  \<open>add\<close> takes the stream \<open>std::cerr\<close> as the list of lines written so far. The
  test \<open>it != _map.end() || key_comp(key, it->first)\<close> evaluates its right operand only
  when \<open>it\<close> is \<open>end()\<close>, and that operand reads \<open>it->first\<close>.
\<close>

definition RequestMap_add ::
  "RequestMap \<Rightarrow> string list \<Rightarrow> 64 word \<Rightarrow> ptr \<Rightarrow> fault + (RequestMap \<times> string list)" where
  "RequestMap_add rm cerr key elem =
     (case Lock_acquire (rm_lock rm) of
        Inl f \<Rightarrow> Inl f
      | Inr l \<Rightarrow>
          (let rm1 = rm\<lparr>rm_lock := l\<rparr>;
               it = map_lower_bound (rm_map rm1) key;
               inserted = rm1\<lparr>rm_map := map_insert (rm_map rm1) it (key, elem)\<rparr>
           in if it \<noteq> map_end (rm_map rm1)
              then Inr (inserted\<lparr>rm_lock := Lock_release (rm_lock inserted)\<rparr>, cerr)
              else (case map_deref (rm_map rm1) it of
                      Inl f \<Rightarrow> Inl f
                    | Inr kv \<Rightarrow>
                        if key < fst kv
                        then Inr (inserted\<lparr>rm_lock := Lock_release (rm_lock inserted)\<rparr>, cerr)
                        else Inr (rm1\<lparr>rm_lock := Lock_release (rm_lock rm1)\<rparr>,
                                  cerr @ [''Error, key already exists.'']))))"


section \<open>Dependable objects (\<open>core/dependableobject.hpp\<close>)\<close>

text \<open>
  What a member function does outside the object graph is recorded as an event: a call
  of the scheduling policy's hook \<open>atSuccessor(depObj, pred, mode, numPred)\<close>, the virtual
  call \<open>dependenciesSatisfied()\<close> on the object at an address, the call
  \<open>predecessorFinished\<close> on a work descriptor with the other work descriptor, the
  construction and the end of a \<open>SyncLockBlock\<close> on an object's lock, the
  \<open>deleter\<close> applied to a dependency target, and \<open>memoryFence()\<close>. The
  \<open>erase\<close> of \<open>deleteSuccessor\<close> is recorded too, with the object whose successor
  set it is and the pointer erased, so that the events tell between which lock operations
  a removal runs.
\<close>

datatype event =
    AtSuccessor ptr ptr int int
  | DependenciesSatisfied ptr
  | PredecessorFinished ptr ptr
  | LockAcquired ptr
  | LockReleased ptr
  | SuccessorErased ptr ptr
  | Deleted ptr
  | MemoryFence

text \<open>
  Modelled from the spec: the fields of the class, declared in
  \<open>dependableobject_decl.hpp\<close>, which is not among the files verified here. They are
  the fields the member functions name, which the data model of the spec lists too. The
  counters are 32-bit machine integers, read as signed where the source converts them to
  \<open>int\<close>; \<open>DependableObjectVector\<close> is used as a \<open>std::set\<close> of pointers
  (\<open>insert(...).second\<close>, \<open>find\<close>, \<open>erase\<close> by key), a finite set here, iterated
  in ascending order of address. The field \<open>do_objectLock\<close> is the lock that
  \<open>getLock\<close> returns, a busy flag: it tells whether the lock is held.
\<close>

record DependableObject =
  do_id :: "32 word"
  do_numPredecessors :: "32 word"
  do_references :: "32 word"
  do_predecessors :: "ptr fset"
  do_successors :: "ptr fset"
  do_domain :: ptr
  do_outputObjects :: "ptr list"
  do_readObjects :: "ptr list"
  do_objectLock :: bool
  do_submitted :: bool
  do_needsSubmission :: bool
  do_wd :: ptr
  do_schedulerData :: ptr

text \<open>The live objects by address, and the events so far.\<close>

record runtime =
  sys_heap :: "ptr \<rightharpoonup> DependableObject"
  sys_trace :: "event list"

definition store :: "runtime \<Rightarrow> ptr \<Rightarrow> DependableObject \<Rightarrow> runtime" where
  "store s a d = s\<lparr>sys_heap := (sys_heap s)(a \<mapsto> d)\<rparr>"

definition emit :: "runtime \<Rightarrow> event list \<Rightarrow> runtime" where
  "emit s evs = s\<lparr>sys_trace := sys_trace s @ evs\<rparr>"

definition update_object :: "runtime \<Rightarrow> ptr \<Rightarrow> (DependableObject \<Rightarrow> DependableObject) \<Rightarrow> runtime" where
  "update_object s a f = s\<lparr>sys_heap := (sys_heap s)(a := map_option f (sys_heap s a))\<rparr>"

text \<open>
  \<open>SyncLockBlock lock( obj->getLock() )\<close> acquires the lock of the object where it is
  declared and releases it at the end of its block. On a lock that is held the
  constructor does not return.
\<close>

definition SyncLockBlock_enter :: "runtime \<Rightarrow> ptr \<Rightarrow> fault + runtime" where
  "SyncLockBlock_enter s obj =
     (case sys_heap s obj of
        None \<Rightarrow> Inl InvalidPointer
      | Some d \<Rightarrow>
          (case Lock_acquire (do_objectLock d) of
             Inl f \<Rightarrow> Inl f
           | Inr l \<Rightarrow>
               Inr (emit (update_object s obj (\<lambda>d. d\<lparr>do_objectLock := l\<rparr>))
                      [LockAcquired obj])))"

definition SyncLockBlock_leave :: "runtime \<Rightarrow> ptr \<Rightarrow> runtime" where
  "SyncLockBlock_leave s obj =
     emit (update_object s obj (\<lambda>d. d\<lparr>do_objectLock := Lock_release (do_objectLock d)\<rparr>))
       [LockReleased obj]"

definition DependableObject_deleteSuccessor :: "runtime \<Rightarrow> ptr \<Rightarrow> ptr \<Rightarrow> fault + (bool \<times> runtime)" where
  "DependableObject_deleteSuccessor s this depObj =
     (case sys_heap s this of
        None \<Rightarrow> Inl InvalidPointer
      | Some d \<Rightarrow>
          Inr (depObj |\<in>| do_successors d,
               emit (store s this (d\<lparr>do_successors := do_successors d |-| {|depObj|}\<rparr>))
                 [SuccessorErased this depObj]))"

text \<open>The loop of the destructor over \<open>_predecessors\<close>.\<close>

fun delete_from_predecessors :: "ptr list \<Rightarrow> ptr \<Rightarrow> runtime \<Rightarrow> fault + runtime" where
  "delete_from_predecessors [] this s = Inr s"
| "delete_from_predecessors (p # ps) this s =
     (case DependableObject_deleteSuccessor s p this of
        Inl f \<Rightarrow> Inl f
      | Inr (erased, s1) \<Rightarrow> delete_from_predecessors ps this s1)"

text \<open>The body of the destructor; the storage of the object is released after it.\<close>

definition DependableObject_destructor :: "runtime \<Rightarrow> ptr \<Rightarrow> fault + runtime" where
  "DependableObject_destructor s this =
     (case sys_heap s this of
        None \<Rightarrow> Inl InvalidPointer
      | Some d \<Rightarrow>
          (case SyncLockBlock_enter s this of
             Inl f \<Rightarrow> Inl f
           | Inr s0 \<Rightarrow>
               (case delete_from_predecessors (sorted_list_of_fset (do_predecessors d)) this s0 of
                  Inl f \<Rightarrow> Inl f
                | Inr s1 \<Rightarrow>
                    Inr (emit (SyncLockBlock_leave s1 this)
                           (map Deleted (do_outputObjects d) @ map Deleted (do_readObjects d))))))"

definition DependableObject_assign :: "runtime \<Rightarrow> ptr \<Rightarrow> ptr \<Rightarrow> fault + runtime" where
  "DependableObject_assign s this depObj =
     (case sys_heap s this of
        None \<Rightarrow> Inl InvalidPointer
      | Some d \<Rightarrow>
          if this = depObj then Inr s
          else (case sys_heap s depObj of
                  None \<Rightarrow> Inl InvalidPointer
                | Some src \<Rightarrow>
                    Inr (store s this
                          (d\<lparr>do_id := do_id src,
                             do_numPredecessors := do_numPredecessors src,
                             do_references := do_references src,
                             do_predecessors := do_predecessors src,
                             do_successors := do_successors src,
                             do_domain := do_domain src,
                             do_outputObjects := do_outputObjects src,
                             do_submitted := do_submitted src,
                             do_needsSubmission := do_needsSubmission src,
                             do_wd := do_wd src\<rparr>))))"

definition DependableObject_setId :: "runtime \<Rightarrow> ptr \<Rightarrow> 32 word \<Rightarrow> fault + runtime" where
  "DependableObject_setId s this i =
     (case sys_heap s this of
        None \<Rightarrow> Inl InvalidPointer
      | Some d \<Rightarrow> Inr (store s this (d\<lparr>do_id := i\<rparr>)))"

definition DependableObject_increasePredecessors :: "runtime \<Rightarrow> ptr \<Rightarrow> fault + (int \<times> runtime)" where
  "DependableObject_increasePredecessors s this =
     (case sys_heap s this of
        None \<Rightarrow> Inl InvalidPointer
      | Some d \<Rightarrow>
          Inr (sint (do_numPredecessors d),
               store s this (d\<lparr>do_numPredecessors := do_numPredecessors d + 1\<rparr>)))"

text \<open>
  \<open>decreasePredecessors\<close>: the parameters \<open>flushDeps\<close> and \<open>blocking\<close> are not used
  by the body. The block that took the object's lock and called
  \<open>decreasePredecessorsInLock\<close> is commented out in the source.
\<close>

definition DependableObject_decreasePredecessors ::
  "runtime \<Rightarrow> ptr \<Rightarrow> ptr \<Rightarrow> bool \<Rightarrow> fault + (int \<times> runtime)" where
  "DependableObject_decreasePredecessors s this finishedPred batchRelease =
     (case sys_heap s this of
        None \<Rightarrow> Inl InvalidPointer
      | Some d \<Rightarrow>
          (let d1 = d\<lparr>do_numPredecessors := do_numPredecessors d - 1\<rparr>;
               numPred = sint (do_numPredecessors d1);
               s1 = emit (store s this d1) [AtSuccessor this finishedPred 1 numPred];
               s2 = (if numPred = 0 \<and> \<not> batchRelease
                     then emit s1 [DependenciesSatisfied this] else s1)
           in Inr (numPred, s2)))"

definition DependableObject_decreasePredecessorsInLock ::
  "runtime \<Rightarrow> ptr \<Rightarrow> ptr \<Rightarrow> int \<Rightarrow> fault + runtime" where
  "DependableObject_decreasePredecessorsInLock s this finishedPred numPred =
     (case sys_heap s this of
        None \<Rightarrow> Inl InvalidPointer
      | Some d \<Rightarrow>
          (case (if finishedPred \<noteq> NULL then
                   (case (if do_wd d \<noteq> NULL then
                            (case sys_heap s finishedPred of
                               None \<Rightarrow> Inl InvalidPointer
                             | Some p \<Rightarrow>
                                 Inr (if do_wd p \<noteq> NULL
                                      then [PredecessorFinished (do_wd d) (do_wd p)] else []))
                          else Inr []) of
                      Inl f \<Rightarrow> Inl f
                    | Inr evs \<Rightarrow>
                        Inr (evs,
                             if do_predecessors d \<noteq> {||}
                             then do_predecessors d |-| {|finishedPred|}
                             else do_predecessors d))
                 else Inr ([], do_predecessors d)) of
             Inl f \<Rightarrow> Inl f
           | Inr (evs, preds) \<Rightarrow>
               Inr (emit (store s this
                            (d\<lparr>do_predecessors :=
                                 (if numPred = 0 \<and> preds \<noteq> {||} then {||} else preds)\<rparr>))
                      evs)))"


definition DependableObject_numPredecessors :: "runtime \<Rightarrow> ptr \<Rightarrow> fault + int" where
  "DependableObject_numPredecessors s this =
     (case sys_heap s this of
        None \<Rightarrow> Inl InvalidPointer
      | Some d \<Rightarrow> Inr (sint (do_numPredecessors d)))"

definition DependableObject_addPredecessor :: "runtime \<Rightarrow> ptr \<Rightarrow> ptr \<Rightarrow> fault + (bool \<times> runtime)" where
  "DependableObject_addPredecessor s this depObj =
     (case sys_heap s this of
        None \<Rightarrow> Inl InvalidPointer
      | Some d \<Rightarrow>
          (let inserted = False
           in case SyncLockBlock_enter s this of
                Inl f \<Rightarrow> Inl f
              | Inr s1 \<Rightarrow>
                  (let inserted1 = depObj |\<notin>| do_predecessors d;
                       s2 = update_object s1 this
                              (\<lambda>d. d\<lparr>do_predecessors := finsert depObj (do_predecessors d)\<rparr>)
                   in Inr (inserted1, SyncLockBlock_leave s2 this))))"

text \<open>
  \<open>addSuccessor\<close>: the call of \<open>depObj.addPredecessor\<close> is commented out in the
  source; the hook is called with the literals 0 and 0 before the insertion.
\<close>

definition DependableObject_addSuccessor :: "runtime \<Rightarrow> ptr \<Rightarrow> ptr \<Rightarrow> fault + (bool \<times> runtime)" where
  "DependableObject_addSuccessor s this depObj =
     (case sys_heap s this of
        None \<Rightarrow> Inl InvalidPointer
      | Some d \<Rightarrow>
          (let s1 = emit s [AtSuccessor depObj this 0 0]
           in Inr (depObj |\<notin>| do_successors d,
                   store s1 this (d\<lparr>do_successors := finsert depObj (do_successors d)\<rparr>))))"

definition DependableObject_setDependenciesDomain :: "runtime \<Rightarrow> ptr \<Rightarrow> ptr \<Rightarrow> fault + runtime" where
  "DependableObject_setDependenciesDomain s this dependenciesDomain =
     (case sys_heap s this of
        None \<Rightarrow> Inl InvalidPointer
      | Some d \<Rightarrow> Inr (store s this (d\<lparr>do_domain := dependenciesDomain\<rparr>)))"

text \<open>
  \<open>addWriteTarget\<close> and \<open>addReadTarget\<close> store \<open>outObj.clone()\<close>; the address of
  the clone is the argument here.
\<close>

definition DependableObject_addWriteTarget :: "runtime \<Rightarrow> ptr \<Rightarrow> ptr \<Rightarrow> fault + runtime" where
  "DependableObject_addWriteTarget s this clone =
     (case sys_heap s this of
        None \<Rightarrow> Inl InvalidPointer
      | Some d \<Rightarrow> Inr (store s this (d\<lparr>do_outputObjects := do_outputObjects d @ [clone]\<rparr>)))"

definition DependableObject_addReadTarget :: "runtime \<Rightarrow> ptr \<Rightarrow> ptr \<Rightarrow> fault + runtime" where
  "DependableObject_addReadTarget s this clone =
     (case sys_heap s this of
        None \<Rightarrow> Inl InvalidPointer
      | Some d \<Rightarrow> Inr (store s this (d\<lparr>do_readObjects := do_readObjects d @ [clone]\<rparr>)))"

definition DependableObject_increaseReferences :: "runtime \<Rightarrow> ptr \<Rightarrow> fault + runtime" where
  "DependableObject_increaseReferences s this =
     (case sys_heap s this of
        None \<Rightarrow> Inl InvalidPointer
      | Some d \<Rightarrow> Inr (store s this (d\<lparr>do_references := do_references d + 1\<rparr>)))"

definition DependableObject_resetReferences :: "runtime \<Rightarrow> ptr \<Rightarrow> fault + runtime" where
  "DependableObject_resetReferences s this =
     (case sys_heap s this of
        None \<Rightarrow> Inl InvalidPointer
      | Some d \<Rightarrow> Inr (store s this (d\<lparr>do_references := 1\<rparr>)))"

definition DependableObject_isSubmitted :: "runtime \<Rightarrow> ptr \<Rightarrow> fault + bool" where
  "DependableObject_isSubmitted s this =
     (case sys_heap s this of
        None \<Rightarrow> Inl InvalidPointer
      | Some d \<Rightarrow> Inr (do_submitted d))"

definition DependableObject_needsSubmission :: "runtime \<Rightarrow> ptr \<Rightarrow> fault + bool" where
  "DependableObject_needsSubmission s this =
     (case sys_heap s this of
        None \<Rightarrow> Inl InvalidPointer
      | Some d \<Rightarrow> Inr (do_needsSubmission d))"

definition DependableObject_enableSubmission :: "runtime \<Rightarrow> ptr \<Rightarrow> fault + runtime" where
  "DependableObject_enableSubmission s this =
     (case sys_heap s this of
        None \<Rightarrow> Inl InvalidPointer
      | Some d \<Rightarrow> Inr (store s this (d\<lparr>do_needsSubmission := True\<rparr>)))"

definition DependableObject_submitted :: "runtime \<Rightarrow> ptr \<Rightarrow> fault + runtime" where
  "DependableObject_submitted s this =
     (case sys_heap s this of
        None \<Rightarrow> Inl InvalidPointer
      | Some d \<Rightarrow>
          (case DependableObject_enableSubmission (store s this (d\<lparr>do_submitted := True\<rparr>)) this of
             Inl f \<Rightarrow> Inl f
           | Inr s1 \<Rightarrow> Inr (emit s1 [MemoryFence])))"

definition DependableObject_disableSubmission :: "runtime \<Rightarrow> ptr \<Rightarrow> fault + runtime" where
  "DependableObject_disableSubmission s this =
     (case sys_heap s this of
        None \<Rightarrow> Inl InvalidPointer
      | Some d \<Rightarrow>
          Inr (emit (store s this (d\<lparr>do_needsSubmission := False, do_submitted := False\<rparr>))
                 [MemoryFence]))"

definition DependableObject_setWD :: "runtime \<Rightarrow> ptr \<Rightarrow> ptr \<Rightarrow> fault + runtime" where
  "DependableObject_setWD s this w =
     (case sys_heap s this of
        None \<Rightarrow> Inl InvalidPointer
      | Some d \<Rightarrow> Inr (store s this (d\<lparr>do_wd := w\<rparr>)))"

definition DependableObject_setSchedulerData :: "runtime \<Rightarrow> ptr \<Rightarrow> ptr \<Rightarrow> fault + runtime" where
  "DependableObject_setSchedulerData s this scData =
     (case sys_heap s this of
        None \<Rightarrow> Inl InvalidPointer
      | Some d \<Rightarrow> Inr (store s this (d\<lparr>do_schedulerData := scData\<rparr>)))"

text \<open>
  The member functions of the file that change an object, as one step function. The
  remaining members (\<open>waits\<close>, \<open>getDescription\<close>, \<open>getRelatedObject\<close> and the
  accessors) return a constant or a field and change nothing.
\<close>

datatype operation =
    Assign ptr
  | SetId "32 word"
  | IncreasePredecessors
  | DecreasePredecessors ptr bool
  | DecreasePredecessorsInLock ptr int
  | AddPredecessor ptr
  | AddSuccessor ptr
  | DeleteSuccessor ptr
  | SetDependenciesDomain ptr
  | AddWriteTarget ptr
  | AddReadTarget ptr
  | IncreaseReferences
  | ResetReferences
  | Submitted
  | EnableSubmission
  | DisableSubmission
  | SetWD ptr
  | SetSchedulerData ptr
  | Destructor

fun exec :: "operation \<Rightarrow> ptr \<Rightarrow> runtime \<Rightarrow> fault + runtime" where
  "exec (Assign depObj) this s = DependableObject_assign s this depObj"
| "exec (SetId i) this s = DependableObject_setId s this i"
| "exec IncreasePredecessors this s = map_sum id snd (DependableObject_increasePredecessors s this)"
| "exec (DecreasePredecessors finishedPred batchRelease) this s =
     map_sum id snd (DependableObject_decreasePredecessors s this finishedPred batchRelease)"
| "exec (DecreasePredecessorsInLock finishedPred numPred) this s =
     DependableObject_decreasePredecessorsInLock s this finishedPred numPred"
| "exec (AddPredecessor depObj) this s = map_sum id snd (DependableObject_addPredecessor s this depObj)"
| "exec (AddSuccessor depObj) this s = map_sum id snd (DependableObject_addSuccessor s this depObj)"
| "exec (DeleteSuccessor depObj) this s = map_sum id snd (DependableObject_deleteSuccessor s this depObj)"
| "exec (SetDependenciesDomain dependenciesDomain) this s =
     DependableObject_setDependenciesDomain s this dependenciesDomain"
| "exec (AddWriteTarget clone) this s = DependableObject_addWriteTarget s this clone"
| "exec (AddReadTarget clone) this s = DependableObject_addReadTarget s this clone"
| "exec IncreaseReferences this s = DependableObject_increaseReferences s this"
| "exec ResetReferences this s = DependableObject_resetReferences s this"
| "exec Submitted this s = DependableObject_submitted s this"
| "exec EnableSubmission this s = DependableObject_enableSubmission s this"
| "exec DisableSubmission this s = DependableObject_disableSubmission s this"
| "exec (SetWD w) this s = DependableObject_setWD s this w"
| "exec (SetSchedulerData scData) this s = DependableObject_setSchedulerData s this scData"
| "exec Destructor this s = DependableObject_destructor s this"


text \<open>
  An object with no edges and no targets, its counters at 0, its lock free, its flags
  false and its pointers null; the examples below start from it.
\<close>

definition example_object :: DependableObject where
  "example_object =
     \<lparr>do_id = 0, do_numPredecessors = 0, do_references = 0,
      do_predecessors = {||}, do_successors = {||}, do_domain = NULL,
      do_outputObjects = [], do_readObjects = [], do_objectLock = False,
      do_submitted = False, do_needsSubmission = False,
      do_wd = NULL, do_schedulerData = NULL\<rparr>"


section \<open>Task graph dump (\<open>plugins/instrumentation/tg_dump_utils.hpp\<close>)\<close>

datatype DependencyType =
    Null | TrueDep | Anti | Output | InConcurrent | OutConcurrent
  | InCommutative | OutCommutative | InAny | OutAny

datatype EdgeKind = Nesting | Synchronization | Dependency

datatype NodeType = Root | BarrierNode | ConcurrentNode | CommutativeNode | TaskNode | TaskwaitNode

text \<open>
  An \<open>Edge\<close> is built once and never written again, and \<open>connect_nodes\<close> compares
  edges through their pointers by value, so the vectors of \<open>Edge *\<close> are lists of edge
  values. Nodes are written through pointers, the two ends of an edge may be the same
  node, and so nodes live in a store by address.
\<close>

record Edge =
  edge_kind :: EdgeKind
  edge_dep_type :: DependencyType
  edge_source :: ptr
  edge_target :: ptr
  edge_data_range :: "ptr \<times> ptr"

definition Edge_eq :: "Edge \<Rightarrow> Edge \<Rightarrow> bool" where
  "Edge_eq lhs rhs \<longleftrightarrow>
     edge_kind lhs = edge_kind rhs \<and>
     edge_dep_type lhs = edge_dep_type rhs \<and>
     edge_source lhs = edge_source rhs \<and>
     edge_target lhs = edge_target rhs \<and>
     edge_data_range lhs = edge_data_range rhs"

text \<open>
  The fields of \<open>Node\<close> that the functions below read or write; the two locks are busy
  flags. The timing fields, the performance counters and the I/O records are left out.
\<close>

record Node =
  node_wd_id :: "64 word"
  node_func_id :: "64 word"
  node_type :: NodeType
  node_entry_edges :: "Edge list"
  node_exit_edges :: "Edge list"
  node_entry_lock :: bool
  node_exit_lock :: bool
  node_printed :: bool
  node_critical :: bool

text \<open>The nodes by address and the global array \<open>int used_edge_types[5]\<close>.\<close>

record task_graph =
  tg_nodes :: "ptr \<rightharpoonup> Node"
  used_edge_types :: "int list"

definition update_node :: "task_graph \<Rightarrow> ptr \<Rightarrow> (Node \<Rightarrow> Node) \<Rightarrow> task_graph" where
  "update_node g a f = g\<lparr>tg_nodes := (tg_nodes g)(a := map_option f (tg_nodes g a))\<rparr>"

definition Node_get_connections :: "Node \<Rightarrow> ptr \<Rightarrow> Edge list" where
  "Node_get_connections n target = filter (\<lambda>e. edge_target e = target) (node_exit_edges n)"

definition Node_is_critical :: "Node \<Rightarrow> bool" where
  "Node_is_critical n = node_critical n"

text \<open>The \<open>switch\<close> of \<open>connect_nodes\<close> that stores the edge type as used.\<close>

definition store_used_edge_type :: "EdgeKind \<Rightarrow> DependencyType \<Rightarrow> int list \<Rightarrow> int list" where
  "store_used_edge_type kind dep_type u =
     (case kind of
        Nesting \<Rightarrow> u[3 := 1]
      | Synchronization \<Rightarrow> u[0 := 1]
      | Dependency \<Rightarrow>
          (case dep_type of
             TrueDep \<Rightarrow> u[0 := 1]
           | Anti \<Rightarrow> u[1 := 1]
           | Output \<Rightarrow> u[2 := 1]
           | _ \<Rightarrow> u))"

definition Node_connect_nodes ::
  "task_graph \<Rightarrow> ptr \<Rightarrow> ptr \<Rightarrow> EdgeKind \<Rightarrow> ptr \<Rightarrow> ptr \<Rightarrow> DependencyType \<Rightarrow> fault + task_graph" where
  "Node_connect_nodes g source target kind data_start data_end dep_type =
     (case tg_nodes g source of
        None \<Rightarrow> Inl InvalidPointer
      | Some src \<Rightarrow>
          (case Lock_acquire (node_exit_lock src) of
             Inl f \<Rightarrow> Inl f
           | Inr l \<Rightarrow>
               (let g1 = update_node g source (\<lambda>n. n\<lparr>node_exit_lock := l\<rparr>);
                    new_edge = \<lparr>edge_kind = kind, edge_dep_type = dep_type,
                                edge_source = source, edge_target = target,
                                edge_data_range = (data_start, data_end)\<rparr>;
                    c = Node_get_connections src target
                in if list_ex (\<lambda>e. Edge_eq e new_edge) c
                   then Inr (update_node g1 source
                               (\<lambda>n. n\<lparr>node_exit_lock := Lock_release (node_exit_lock n)\<rparr>))
                   else
                     (let g2 = update_node g1 source
                                 (\<lambda>n. n\<lparr>node_exit_edges := node_exit_edges n @ [new_edge]\<rparr>)
                      in case tg_nodes g2 target of
                           None \<Rightarrow> Inl InvalidPointer
                         | Some tgt \<Rightarrow>
                             (case Lock_acquire (node_entry_lock tgt) of
                                Inl f \<Rightarrow> Inl f
                              | Inr l2 \<Rightarrow>
                                  (let g3 = update_node g2 target (\<lambda>n. n\<lparr>node_entry_lock := l2\<rparr>);
                                       g4 = update_node g3 target
                                              (\<lambda>n. n\<lparr>node_entry_edges := node_entry_edges n @ [new_edge]\<rparr>);
                                       g5 = update_node g4 target
                                              (\<lambda>n. n\<lparr>node_entry_lock := Lock_release (node_entry_lock n)\<rparr>);
                                       g6 = g5\<lparr>used_edge_types :=
                                                 store_used_edge_type kind dep_type (used_edge_types g5)\<rparr>;
                                       g7 = (if Node_is_critical src \<and> Node_is_critical tgt
                                             then g6\<lparr>used_edge_types := (used_edge_types g6)[4 := 1]\<rparr>
                                             else g6)
                                   in Inr (update_node g7 source
                                             (\<lambda>n. n\<lparr>node_exit_lock := Lock_release (node_exit_lock n)\<rparr>))))))))"

text \<open>A task node with no edges, its locks free; the examples below start from it.\<close>

definition example_node :: Node where
  "example_node =
     \<lparr>node_wd_id = 0, node_func_id = 0, node_type = TaskNode,
      node_entry_edges = [], node_exit_edges = [],
      node_entry_lock = False, node_exit_lock = False,
      node_printed = False, node_critical = False\<rparr>"


section \<open>Memory services of the C interface (\<open>apis/c/nanos_memory.cpp\<close>)\<close>

text \<open>
  The enumeration \<open>nanos_err_t\<close> is declared in \<open>nanos.h\<close>, which is not among the
  files verified here: it is taken as the two enumerators that \<open>nanos_cmalloc\<close> names,
  and every other one by its number.
\<close>

datatype nanos_err_t = NANOS_OK | NANOS_INVALID_PARAM | NANOS_OTHER_ERR nat

text \<open>
  The allocator and the runtime system are outside the file. A call to them ends
  normally with a value, throws a \<open>nanos_err_t\<close>, or throws something else, which the
  handler \<open>catch ( nanos_err_t e )\<close> does not catch.
\<close>

datatype 'a outcome = Normal 'a | Throws nanos_err_t | ThrowsOther

record memory_env =
  getNumNodes :: "32 word"
  allocate :: "64 word \<Rightarrow> ptr outcome"
  allocate_none :: "64 word \<Rightarrow> ptr outcome"
  registerNodeOwnedMemory :: "32 word \<Rightarrow> ptr \<Rightarrow> 64 word \<Rightarrow> unit outcome"

datatype memory_call =
    Allocate "64 word"
  | AllocateNone "64 word"
  | RegisterNodeOwnedMemory "32 word" ptr "64 word"

datatype uncaught = Uncaught

text \<open>
  \<open>nanos_cmalloc\<close> returns the error code, or lets an exception through; with it come
  the pointer stored in \<open>*p\<close> (the argument \<open>p\<close> is what \<open>*p\<close> held before) and the
  calls made to the allocator and the runtime system, in order. The parameter
  \<open>size\<close> is \<open>sz\<close> here; \<open>file\<close> and \<open>line\<close> are not used by the body.
\<close>

definition nanos_cmalloc ::
  "memory_env \<Rightarrow> ptr \<Rightarrow> 64 word \<Rightarrow> 32 word \<Rightarrow> (uncaught + nanos_err_t) \<times> ptr \<times> memory_call list" where
  "nanos_cmalloc env p sz node =
     (if node < getNumNodes env then
        (case (if node = 0 then (allocate env sz, [Allocate sz])
               else (allocate_none env sz, [AllocateNone sz])) of
           (Throws e, calls) \<Rightarrow> (Inr e, p, calls)
         | (ThrowsOther, calls) \<Rightarrow> (Inl Uncaught, p, calls)
         | (Normal q, calls) \<Rightarrow>
             (case registerNodeOwnedMemory env node q sz of
                Throws e \<Rightarrow> (Inr e, q, calls @ [RegisterNodeOwnedMemory node q sz])
              | ThrowsOther \<Rightarrow> (Inl Uncaught, q, calls @ [RegisterNodeOwnedMemory node q sz])
              | Normal u \<Rightarrow> (Inr NANOS_OK, q, calls @ [RegisterNodeOwnedMemory node q sz])))
      else (Inr NANOS_INVALID_PARAM, p, []))"

text \<open>
  A network of two nodes whose allocator fails with error number 3 on a request of size
  0; the examples below use it.
\<close>

definition example_env :: memory_env where
  "example_env =
     \<lparr>getNumNodes = 2,
      allocate = (\<lambda>sz. if sz = 0 then Throws (NANOS_OTHER_ERR 3) else Normal 4096),
      allocate_none = (\<lambda>sz. Normal 8192),
      registerNodeOwnedMemory = (\<lambda>node q sz. Normal ())\<rparr>"


section \<open>Properties of the request queue\<close>

lemma tryFetch_locked:
  "rq_lock q \<Longrightarrow> RequestQueue_tryFetch q = (NULL, q)"
  by (simp add: RequestQueue_tryFetch_def Lock_tryAcquire_def)

lemma tryFetch_empty:
  "rq_queue q = [] \<Longrightarrow> RequestQueue_tryFetch q = (NULL, q)"
  by (cases "rq_lock q")
     (simp_all add: RequestQueue_tryFetch_def Lock_tryAcquire_def Lock_release_def)

lemma tryFetch_front:
  "\<not> rq_lock q \<Longrightarrow> rq_queue q = x # xs \<Longrightarrow>
     RequestQueue_tryFetch q = (x, q\<lparr>rq_queue := xs\<rparr>)"
  by (simp add: RequestQueue_tryFetch_def Lock_tryAcquire_def Lock_release_def)

lemma add_appends:
  "\<not> rq_lock q \<Longrightarrow> RequestQueue_add q e = Inr (q\<lparr>rq_queue := rq_queue q @ [e]\<rparr>)"
  by (simp add: RequestQueue_add_def Lock_acquire_def Lock_release_def)

text \<open>
  C9. \<open>tryFetch\<close> is a function of the queue state alone. It returns the null
  pointer and leaves the queue as it is when the lock is held or the queue is empty.
  Otherwise it returns the front element and leaves the rest of the list, in order, with
  the lock free again. \<open>add\<close>, once it has the lock, appends at the back, so the front
  is the element appended least recently.
\<close>

theorem RequestQueue_tryFetch_fifo:
  "(rq_lock q \<or> rq_queue q = [] \<longrightarrow> RequestQueue_tryFetch q = (NULL, q)) \<and>
   (\<not> rq_lock q \<longrightarrow> rq_queue q = x # xs \<longrightarrow>
      RequestQueue_tryFetch q = (x, q\<lparr>rq_queue := xs\<rparr>)) \<and>
   (\<not> rq_lock q \<longrightarrow>
      RequestQueue_add q e = Inr (q\<lparr>rq_queue := rq_queue q @ [e]\<rparr>))"
  using tryFetch_locked tryFetch_empty tryFetch_front add_appends by blast

theorem RequestQueue_tryFetch_fifo_witness:
  "RequestQueue_tryFetch \<lparr>rq_queue = [7, 8], rq_lock = False\<rparr>
     = (7, \<lparr>rq_queue = [8], rq_lock = False\<rparr>) \<and>
   RequestQueue_tryFetch \<lparr>rq_queue = [7, 8], rq_lock = True\<rparr>
     = (NULL, \<lparr>rq_queue = [7, 8], rq_lock = True\<rparr>) \<and>
   RequestQueue_add \<lparr>rq_queue = [7, 8], rq_lock = False\<rparr> 9
     = Inr \<lparr>rq_queue = [7, 8, 9], rq_lock = False\<rparr>"
  using RequestQueue_tryFetch_fifo
          [of "\<lparr>rq_queue = [7, 8], rq_lock = False\<rparr>" 7 "[8]" 9]
        RequestQueue_tryFetch_fifo
          [of "\<lparr>rq_queue = [7, 8], rq_lock = True\<rparr>" 7 "[8]" 9]
  by simp

text \<open>
  C8. On the empty queue, with the lock free, \<open>fetch\<close> reaches the end of its body
  without a \<open>return\<close> statement: the call yields no value at all, neither the null
  pointer nor any other.
\<close>

theorem RequestQueue_fetch_empty_no_value:
  "RequestQueue_fetch \<lparr>rq_queue = [], rq_lock = False\<rparr> = Inl NoReturnValue"
  by (simp add: RequestQueue_fetch_def Lock_acquire_def Lock_release_def)

text \<open>
  C7. \<open>RequestMap::add\<close> at two inputs. With key 5 present, adding key 5 again leaves
  the map as it is and writes nothing to \<open>std::cerr\<close>. With the map empty, so that key 5
  is absent, the call reads through the past-the-end iterator and inserts nothing.
\<close>

theorem RequestMap_add_present_and_absent:
  "RequestMap_add \<lparr>rm_map = [(5, 1)], rm_lock = False\<rparr> [] 5 2
     = Inr (\<lparr>rm_map = [(5, 1)], rm_lock = False\<rparr>, []) \<and>
   RequestMap_add \<lparr>rm_map = [], rm_lock = False\<rparr> [] 5 2 = Inl EndDereferenced"
  by (simp add: RequestMap_add_def Lock_acquire_def Lock_release_def map_lower_bound_def
        map_end_def map_insert_def map_deref_def)


section \<open>Properties of dependable objects\<close>

subsection \<open>What each member function does to the state\<close>

lemma sint_pred_zero: "sint (w - 1 :: 32 word) = 0 \<longleftrightarrow> w = 1"
  by (metis diff_add_cancel sint_0 signed_eq_0_iff diff_self)

lemma decreasePredecessors_effect:
  assumes "sys_heap s this = Some d"
  shows "DependableObject_decreasePredecessors s this finishedPred batchRelease =
           Inr (sint (do_numPredecessors d - 1),
                emit (store s this (d\<lparr>do_numPredecessors := do_numPredecessors d - 1\<rparr>))
                  (AtSuccessor this finishedPred 1 (sint (do_numPredecessors d - 1)) #
                   (if sint (do_numPredecessors d - 1) = 0 \<and> \<not> batchRelease
                    then [DependenciesSatisfied this] else [])))"
  using assms
  by (simp add: DependableObject_decreasePredecessors_def Let_def emit_def store_def)

lemma addSuccessor_effect:
  assumes "sys_heap s this = Some d"
  shows "DependableObject_addSuccessor s this depObj =
           Inr (depObj |\<notin>| do_successors d,
                store (emit s [AtSuccessor depObj this 0 0]) this
                  (d\<lparr>do_successors := finsert depObj (do_successors d)\<rparr>))"
  using assms by (simp add: DependableObject_addSuccessor_def Let_def)

lemma decreasePredecessorsInLock_effect:
  assumes "sys_heap s this = Some d" and "sys_heap s finishedPred = Some p"
    and "finishedPred \<noteq> NULL"
  shows "DependableObject_decreasePredecessorsInLock s this finishedPred numPred =
           Inr (emit (store s this
                        (d\<lparr>do_predecessors :=
                             (if numPred = 0 then {||} else do_predecessors d |-| {|finishedPred|})\<rparr>))
                  (if do_wd d \<noteq> NULL \<and> do_wd p \<noteq> NULL
                   then [PredecessorFinished (do_wd d) (do_wd p)] else []))"
  using assms
  by (auto simp add: DependableObject_decreasePredecessorsInLock_def)

lemma deleteSuccessor_keeps_flag:
  assumes "DependableObject_deleteSuccessor s p x = Inr (b, s')" and "sys_heap s a = Some d"
  shows "\<exists>d'. sys_heap s' a = Some d' \<and> do_submitted d' = do_submitted d"
  using assms
  by (auto simp: DependableObject_deleteSuccessor_def store_def emit_def split: option.splits)

lemma delete_from_predecessors_keeps_flag:
  assumes "delete_from_predecessors ps this s = Inr s'" and "sys_heap s a = Some d"
  shows "\<exists>d'. sys_heap s' a = Some d' \<and> do_submitted d' = do_submitted d"
  using assms
proof (induction ps arbitrary: s d)
  case Nil
  then show ?case by simp
next
  case (Cons p ps)
  from Cons.prems(1) obtain b s1 where
    step: "DependableObject_deleteSuccessor s p this = Inr (b, s1)"
    and rest: "delete_from_predecessors ps this s1 = Inr s'"
    by (auto split: sum.splits)
  from deleteSuccessor_keeps_flag[OF step Cons.prems(2)] obtain d1 where
    "sys_heap s1 a = Some d1" "do_submitted d1 = do_submitted d" by blast
  with Cons.IH[OF rest] show ?case by fastforce
qed

lemma SyncLockBlock_enter_keeps_flag:
  assumes "SyncLockBlock_enter s obj = Inr s'" and "sys_heap s a = Some d"
  shows "\<exists>d'. sys_heap s' a = Some d' \<and> do_submitted d' = do_submitted d"
  using assms
  by (auto simp: SyncLockBlock_enter_def update_object_def emit_def
           split: option.splits sum.splits)

lemma SyncLockBlock_leave_keeps_flag:
  assumes "sys_heap s a = Some d"
  shows "\<exists>d'. sys_heap (SyncLockBlock_leave s obj) a = Some d' \<and>
              do_submitted d' = do_submitted d"
  using assms by (auto simp: SyncLockBlock_leave_def update_object_def emit_def)

lemma free_lock_release:
  "\<not> do_objectLock e \<Longrightarrow> e\<lparr>do_objectLock := False\<rparr> = e"
  by simp

lemma destructor_keeps_flag:
  assumes "DependableObject_destructor s this = Inr s'" and "sys_heap s a = Some d"
  shows "\<exists>d'. sys_heap s' a = Some d' \<and> do_submitted d' = do_submitted d"
proof -
  from assms(1) obtain e where e: "sys_heap s this = Some e"
    by (auto simp: DependableObject_destructor_def split: option.splits)
  with assms(1) obtain s0 where s0: "SyncLockBlock_enter s this = Inr s0"
    by (auto simp: DependableObject_destructor_def split: sum.splits)
  with e assms(1) obtain s1 where
    s1: "delete_from_predecessors (sorted_list_of_fset (do_predecessors e)) this s0 = Inr s1"
    and s': "s' = emit (SyncLockBlock_leave s1 this)
                    (map Deleted (do_outputObjects e) @ map Deleted (do_readObjects e))"
    by (auto simp: DependableObject_destructor_def split: sum.splits)
  from SyncLockBlock_enter_keeps_flag[OF s0 assms(2)] obtain d0 where
    d0: "sys_heap s0 a = Some d0" "do_submitted d0 = do_submitted d" by blast
  from delete_from_predecessors_keeps_flag[OF s1 d0(1)] obtain d1 where
    d1: "sys_heap s1 a = Some d1" "do_submitted d1 = do_submitted d0" by blast
  from SyncLockBlock_leave_keeps_flag[OF d1(1), of this] obtain d2 where
    "sys_heap (SyncLockBlock_leave s1 this) a = Some d2" "do_submitted d2 = do_submitted d1"
    by blast
  then show ?thesis using s' d0(2) d1(2) by (simp add: emit_def)
qed

lemma delete_from_predecessors_effect:
  assumes "set ps \<subseteq> dom (sys_heap s)"
  shows "\<exists>s'. delete_from_predecessors ps this s = Inr s' \<and>
           sys_trace s' = sys_trace s @ map (\<lambda>p. SuccessorErased p this) ps \<and>
           (\<forall>a. sys_heap s' a =
                  (if a \<in> set ps
                   then map_option (\<lambda>e. e\<lparr>do_successors := do_successors e |-| {|this|}\<rparr>)
                          (sys_heap s a)
                   else sys_heap s a))"
  using assms
proof (induction ps arbitrary: s)
  case Nil
  then show ?case by simp
next
  case (Cons p ps)
  from Cons.prems obtain e where e: "sys_heap s p = Some e" by auto
  let ?s1 = "emit (store s p (e\<lparr>do_successors := do_successors e |-| {|this|}\<rparr>))
               [SuccessorErased p this]"
  have step: "DependableObject_deleteSuccessor s p this = Inr (this |\<in>| do_successors e, ?s1)"
    using e by (simp add: DependableObject_deleteSuccessor_def)
  have "set ps \<subseteq> dom (sys_heap ?s1)"
    using Cons.prems by (auto simp: store_def emit_def)
  from Cons.IH[OF this] obtain s' where
    s': "delete_from_predecessors ps this ?s1 = Inr s'"
        "sys_trace s' = sys_trace ?s1 @ map (\<lambda>p. SuccessorErased p this) ps"
        "\<forall>a. sys_heap s' a =
                  (if a \<in> set ps
                   then map_option (\<lambda>e. e\<lparr>do_successors := do_successors e |-| {|this|}\<rparr>)
                          (sys_heap ?s1 a)
                   else sys_heap ?s1 a)"
    by blast
  have "delete_from_predecessors (p # ps) this s = Inr s'"
    using step s'(1) by simp
  moreover have "sys_trace s' = sys_trace s @ map (\<lambda>p. SuccessorErased p this) (p # ps)"
    using s'(2) by (simp add: store_def emit_def)
  moreover have "\<forall>a. sys_heap s' a =
                  (if a \<in> set (p # ps)
                   then map_option (\<lambda>e. e\<lparr>do_successors := do_successors e |-| {|this|}\<rparr>)
                          (sys_heap s a)
                   else sys_heap s a)"
    using s'(3) e by (auto simp: store_def emit_def)
  ultimately show ?case by blast
qed


subsection \<open>Release to the scheduler\<close>

text \<open>
  C1 (as amended). \<open>decreasePredecessors\<close> on a live object decrements the counter,
  calls the scheduler hook, and calls \<open>dependenciesSatisfied\<close> exactly when the counter
  was 1, so that it reaches 0, and \<open>batchRelease\<close> is false. The \<open>submitted\<close> flag of
  the object is not read: the statement holds for every object \<open>d\<close>, submitted or not,
  and the object keeps its flag.
\<close>

theorem decreasePredecessors_ignores_submitted:
  assumes "sys_heap s this = Some d"
  shows "\<exists>s'. DependableObject_decreasePredecessors s this finishedPred batchRelease
                 = Inr (sint (do_numPredecessors d - 1), s') \<and>
              sys_heap s' this = Some (d\<lparr>do_numPredecessors := do_numPredecessors d - 1\<rparr>) \<and>
              sys_trace s' =
                sys_trace s @
                AtSuccessor this finishedPred 1 (sint (do_numPredecessors d - 1)) #
                (if do_numPredecessors d = 1 \<and> \<not> batchRelease
                 then [DependenciesSatisfied this] else [])"
  using decreasePredecessors_effect[OF assms, of finishedPred batchRelease]
  by (simp add: emit_def store_def sint_pred_zero)

theorem decreasePredecessors_ignores_submitted_witness:
  "\<exists>s'. DependableObject_decreasePredecessors
            \<lparr>sys_heap = [1 \<mapsto> example_object\<lparr>do_numPredecessors := 1\<rparr>], sys_trace = []\<rparr>
            1 NULL False = Inr (0, s') \<and>
         sys_heap s' 1 = Some example_object \<and>
         sys_trace s' = [AtSuccessor 1 NULL 1 0, DependenciesSatisfied 1]"
  using decreasePredecessors_ignores_submitted
          [of "\<lparr>sys_heap = [1 \<mapsto> example_object\<lparr>do_numPredecessors := 1\<rparr>], sys_trace = []\<rparr>"
              1 "example_object\<lparr>do_numPredecessors := 1\<rparr>" NULL False]
  by (simp add: example_object_def)

text \<open>
  The claim as stated fails: the object at address 1 is not submitted and has one
  predecessor left; \<open>decreasePredecessors\<close> without batch release calls
  \<open>dependenciesSatisfied\<close> on it.
\<close>

theorem decreasePredecessors_unsubmitted_counterexample:
  "DependableObject_isSubmitted
     \<lparr>sys_heap = [1 \<mapsto> example_object\<lparr>do_numPredecessors := 1\<rparr>], sys_trace = []\<rparr> 1
     = Inr False \<and>
   DependableObject_decreasePredecessors
     \<lparr>sys_heap = [1 \<mapsto> example_object\<lparr>do_numPredecessors := 1\<rparr>], sys_trace = []\<rparr>
     1 NULL False
     = Inr (0, \<lparr>sys_heap = [1 \<mapsto> example_object],
                sys_trace = [AtSuccessor 1 NULL 1 0, DependenciesSatisfied 1]\<rparr>)"
  by (simp add: DependableObject_isSubmitted_def DependableObject_decreasePredecessors_def
        Let_def emit_def store_def example_object_def)


subsection \<open>The submitted flag\<close>

text \<open>
  C2 (as amended). The \<open>submitted\<close> flag of every live object \<open>a\<close> after any member
  function \<open>op\<close> run on \<open>this\<close>: \<open>submitted()\<close> sets the flag of \<open>this\<close>,
  \<open>disableSubmission()\<close> clears it, assignment copies the flag of the right-hand side,
  and every other member function leaves the flag of every object as it was.
\<close>

theorem submitted_flag_after_operation:
  assumes "sys_heap s a = Some d" and "exec op this s = Inr s'"
  shows "\<exists>d'. sys_heap s' a = Some d' \<and>
           do_submitted d' =
             (case op of
                Submitted \<Rightarrow> a = this \<or> do_submitted d
              | DisableSubmission \<Rightarrow> a \<noteq> this \<and> do_submitted d
              | Assign depObj \<Rightarrow>
                  (if a = this then (\<exists>e. sys_heap s depObj = Some e \<and> do_submitted e)
                   else do_submitted d)
              | _ \<Rightarrow> do_submitted d)"
proof (cases op)
  case Destructor
  then show ?thesis using assms destructor_keeps_flag by simp
next
  case (DecreasePredecessorsInLock fp n)
  then show ?thesis using assms
    by (auto simp: DependableObject_decreasePredecessorsInLock_def store_def emit_def
             split: option.splits sum.splits if_splits)
qed (use assms in \<open>auto simp: DependableObject_assign_def DependableObject_setId_def
      DependableObject_increasePredecessors_def DependableObject_decreasePredecessors_def
      DependableObject_addPredecessor_def DependableObject_addSuccessor_def
      DependableObject_deleteSuccessor_def DependableObject_setDependenciesDomain_def
      DependableObject_addWriteTarget_def DependableObject_addReadTarget_def
      DependableObject_increaseReferences_def DependableObject_resetReferences_def
      DependableObject_submitted_def DependableObject_enableSubmission_def
      DependableObject_disableSubmission_def DependableObject_setWD_def
      DependableObject_setSchedulerData_def store_def emit_def Let_def
      SyncLockBlock_enter_def SyncLockBlock_leave_def update_object_def Lock_acquire_def
      split: option.splits sum.splits if_splits\<close>)

theorem submitted_flag_after_operation_witness:
  "exec DisableSubmission 1
     \<lparr>sys_heap = [1 \<mapsto> example_object\<lparr>do_submitted := True\<rparr>], sys_trace = []\<rparr>
     = Inr \<lparr>sys_heap = [1 \<mapsto> example_object], sys_trace = [MemoryFence]\<rparr> \<and>
   (\<exists>d'. sys_heap \<lparr>sys_heap = [1 \<mapsto> example_object], sys_trace = [MemoryFence]\<rparr> 1 = Some d' \<and>
          do_submitted d' = False)"
  using submitted_flag_after_operation
          [of "\<lparr>sys_heap = [1 \<mapsto> example_object\<lparr>do_submitted := True\<rparr>], sys_trace = []\<rparr>"
              1 "example_object\<lparr>do_submitted := True\<rparr>" DisableSubmission 1
              "\<lparr>sys_heap = [1 \<mapsto> example_object], sys_trace = [MemoryFence]\<rparr>"]
  by (simp add: DependableObject_disableSubmission_def store_def emit_def example_object_def)

text \<open>
  The claim as stated fails: \<open>submitted()\<close> sets the flag of the object at address 1,
  and \<open>disableSubmission()\<close> then sets it back to false.
\<close>

theorem submitted_flag_reset_counterexample:
  "exec Submitted 1 \<lparr>sys_heap = [1 \<mapsto> example_object], sys_trace = []\<rparr>
     = Inr \<lparr>sys_heap = [1 \<mapsto> example_object\<lparr>do_submitted := True, do_needsSubmission := True\<rparr>],
            sys_trace = [MemoryFence]\<rparr> \<and>
   DependableObject_isSubmitted
     \<lparr>sys_heap = [1 \<mapsto> example_object\<lparr>do_submitted := True, do_needsSubmission := True\<rparr>],
      sys_trace = [MemoryFence]\<rparr> 1 = Inr True \<and>
   exec DisableSubmission 1
     \<lparr>sys_heap = [1 \<mapsto> example_object\<lparr>do_submitted := True, do_needsSubmission := True\<rparr>],
      sys_trace = [MemoryFence]\<rparr>
     = Inr \<lparr>sys_heap = [1 \<mapsto> example_object], sys_trace = [MemoryFence, MemoryFence]\<rparr> \<and>
   DependableObject_isSubmitted
     \<lparr>sys_heap = [1 \<mapsto> example_object], sys_trace = [MemoryFence, MemoryFence]\<rparr> 1 = Inr False"
  by (simp add: DependableObject_submitted_def DependableObject_enableSubmission_def
        DependableObject_disableSubmission_def DependableObject_isSubmitted_def
        store_def emit_def example_object_def)


subsection \<open>The scheduler hook\<close>

text \<open>
  C3 (as amended). \<open>addSuccessor\<close> on a live object calls the hook with the target, the
  source and the literals 0 and 0, on every call, whether or not the target was already a
  successor and whatever the target's predecessor count is. \<open>decreasePredecessors\<close>
  calls the hook with 1 as third argument and the decremented count as fourth, so the
  third argument tells the two calls apart.
\<close>

theorem atSuccessor_arguments:
  assumes "sys_heap s this = Some d"
  shows "(\<exists>s'. DependableObject_addSuccessor s this depObj
                  = Inr (depObj |\<notin>| do_successors d, s') \<and>
               sys_trace s' = sys_trace s @ [AtSuccessor depObj this 0 0]) \<and>
         (\<exists>s'. DependableObject_decreasePredecessors s this finishedPred batchRelease
                  = Inr (sint (do_numPredecessors d - 1), s') \<and>
               sys_trace s' =
                 sys_trace s @
                 AtSuccessor this finishedPred 1 (sint (do_numPredecessors d - 1)) #
                 (if sint (do_numPredecessors d - 1) = 0 \<and> \<not> batchRelease
                  then [DependenciesSatisfied this] else []))"
  using addSuccessor_effect[OF assms, of depObj]
        decreasePredecessors_effect[OF assms, of finishedPred batchRelease]
  by (simp add: emit_def store_def)

theorem atSuccessor_arguments_witness:
  "(\<exists>s'. DependableObject_addSuccessor
             \<lparr>sys_heap = [1 \<mapsto> example_object\<lparr>do_numPredecessors := 3\<rparr>], sys_trace = []\<rparr> 1 1
             = Inr (True, s') \<and>
          sys_trace s' = [AtSuccessor 1 1 0 0]) \<and>
   (\<exists>s'. DependableObject_decreasePredecessors
             \<lparr>sys_heap = [1 \<mapsto> example_object\<lparr>do_numPredecessors := 3\<rparr>], sys_trace = []\<rparr>
             1 1 False = Inr (2, s') \<and>
          sys_trace s' = [AtSuccessor 1 1 1 2])"
  using atSuccessor_arguments
          [of "\<lparr>sys_heap = [1 \<mapsto> example_object\<lparr>do_numPredecessors := 3\<rparr>], sys_trace = []\<rparr>"
              1 "example_object\<lparr>do_numPredecessors := 3\<rparr>" 1 1 False]
  by (simp add: example_object_def)

text \<open>
  The claim as stated fails: the target at address 2 has three predecessors left, and
  \<open>addSuccessor\<close> from the object at address 1 passes 0 for the flag and 0 for the
  count, while the call from \<open>decreasePredecessors\<close> passes 1 for the flag.
\<close>

theorem addSuccessor_hook_counterexample:
  "DependableObject_numPredecessors
     \<lparr>sys_heap = [1 \<mapsto> example_object, 2 \<mapsto> example_object\<lparr>do_numPredecessors := 3\<rparr>],
      sys_trace = []\<rparr> 2 = Inr 3 \<and>
   DependableObject_addSuccessor
     \<lparr>sys_heap = [1 \<mapsto> example_object, 2 \<mapsto> example_object\<lparr>do_numPredecessors := 3\<rparr>],
      sys_trace = []\<rparr> 1 2
     = Inr (True,
            \<lparr>sys_heap = [1 \<mapsto> example_object\<lparr>do_successors := {|2|}\<rparr>,
                          2 \<mapsto> example_object\<lparr>do_numPredecessors := 3\<rparr>],
             sys_trace = [AtSuccessor 2 1 0 0]\<rparr>) \<and>
   DependableObject_decreasePredecessors
     \<lparr>sys_heap = [1 \<mapsto> example_object, 2 \<mapsto> example_object\<lparr>do_numPredecessors := 3\<rparr>],
      sys_trace = []\<rparr> 2 1 False
     = Inr (2,
            \<lparr>sys_heap = [1 \<mapsto> example_object, 2 \<mapsto> example_object\<lparr>do_numPredecessors := 2\<rparr>],
             sys_trace = [AtSuccessor 2 1 1 2]\<rparr>)"
  by (simp add: DependableObject_numPredecessors_def DependableObject_addSuccessor_def
        DependableObject_decreasePredecessors_def Let_def emit_def store_def example_object_def
        fun_upd_twist)


subsection \<open>A predecessor finishes\<close>

text \<open>
  C4 (as amended). \<open>decreasePredecessors\<close> with a finished predecessor changes only
  the counter of the object: the predecessor set stays as it is, no lock is taken and
  \<open>predecessorFinished\<close> is not called. The removal is the work of
  \<open>decreasePredecessorsInLock\<close>, which takes no lock itself: for a live, non-null
  finished predecessor it calls \<open>predecessorFinished\<close> on the object's work descriptor
  with the predecessor's when both are non-null, and removes the predecessor from the
  set, or empties the set when \<open>numPred\<close> is 0.
\<close>

theorem finished_predecessor_removal:
  assumes "sys_heap s this = Some d"
  shows "(\<exists>s'. DependableObject_decreasePredecessors s this finishedPred batchRelease
                  = Inr (sint (do_numPredecessors d - 1), s') \<and>
               sys_heap s' this = Some (d\<lparr>do_numPredecessors := do_numPredecessors d - 1\<rparr>) \<and>
               sys_trace s' =
                 sys_trace s @
                 AtSuccessor this finishedPred 1 (sint (do_numPredecessors d - 1)) #
                 (if sint (do_numPredecessors d - 1) = 0 \<and> \<not> batchRelease
                  then [DependenciesSatisfied this] else [])) \<and>
         (finishedPred \<noteq> NULL \<longrightarrow> (\<forall>p. sys_heap s finishedPred = Some p \<longrightarrow>
            (\<exists>s'. DependableObject_decreasePredecessorsInLock s this finishedPred numPred = Inr s' \<and>
                   sys_heap s' =
                     (sys_heap s)(this \<mapsto> d\<lparr>do_predecessors :=
                        (if numPred = 0 then {||} else do_predecessors d |-| {|finishedPred|})\<rparr>) \<and>
                   sys_trace s' =
                     sys_trace s @
                     (if do_wd d \<noteq> NULL \<and> do_wd p \<noteq> NULL
                      then [PredecessorFinished (do_wd d) (do_wd p)] else []))))"
  using decreasePredecessors_effect[OF assms, of finishedPred batchRelease]
        decreasePredecessorsInLock_effect[OF assms, of finishedPred _ numPred]
  by (simp add: emit_def store_def)

theorem finished_predecessor_removal_witness:
  "(\<exists>s'. DependableObject_decreasePredecessorsInLock
            \<lparr>sys_heap = [1 \<mapsto> example_object\<lparr>do_wd := 10\<rparr>,
                          2 \<mapsto> example_object\<lparr>do_wd := 20, do_numPredecessors := 1,
                                                  do_predecessors := {|1, 3|}\<rparr>],
             sys_trace = []\<rparr> 2 1 1 = Inr s' \<and>
          sys_heap s' 2 = Some (example_object\<lparr>do_wd := 20, do_numPredecessors := 1,
                                                 do_predecessors := {|3|}\<rparr>) \<and>
          sys_trace s' = [PredecessorFinished 20 10])"
  using finished_predecessor_removal
          [of "\<lparr>sys_heap = [1 \<mapsto> example_object\<lparr>do_wd := 10\<rparr>,
                          2 \<mapsto> example_object\<lparr>do_wd := 20, do_numPredecessors := 1,
                                                  do_predecessors := {|1, 3|}\<rparr>],
             sys_trace = []\<rparr>" 2
              "example_object\<lparr>do_wd := 20, do_numPredecessors := 1,
                                                  do_predecessors := {|1, 3|}\<rparr>" 1 False 1]
  by (auto simp add: example_object_def NULL_def)

text \<open>
  The claim as stated fails: both objects carry a work descriptor and the object at
  address 1 is a predecessor of the one at address 2; after \<open>decreasePredecessors\<close> it
  still is, and the only event is the call of the scheduler hook.
\<close>

theorem decreasePredecessors_keeps_predecessor_counterexample:
  "DependableObject_decreasePredecessors
     \<lparr>sys_heap = [1 \<mapsto> example_object\<lparr>do_wd := 10\<rparr>,
                   2 \<mapsto> example_object\<lparr>do_wd := 20, do_numPredecessors := 2,
                                           do_predecessors := {|1|}\<rparr>],
      sys_trace = []\<rparr> 2 1 False
     = Inr (1,
            \<lparr>sys_heap = [1 \<mapsto> example_object\<lparr>do_wd := 10\<rparr>,
                          2 \<mapsto> example_object\<lparr>do_wd := 20, do_numPredecessors := 1,
                                                  do_predecessors := {|1|}\<rparr>],
             sys_trace = [AtSuccessor 2 1 1 1]\<rparr>)"
  by (simp add: DependableObject_decreasePredecessors_def Let_def emit_def store_def
        example_object_def)


subsection \<open>Destruction\<close>

lemma sorted_list_of_fset_finsert:
  "sorted_list_of_fset (finsert x S) = insort x (sorted_list_of_fset (S |-| {|x|}))"
  by (simp add: sorted_list_of_fset.rep_eq)

lemma sorted_list_of_fset_empty: "sorted_list_of_fset {||} = []"
  by (simp add: sorted_list_of_fset.rep_eq)

text \<open>
  C6 (as amended). On a live object whose lock is held, the destructor does not get past
  the lock. On a live object whose lock is free and whose predecessors are all live, it
  returns, and its events are, in this order: its own lock is acquired; the object is
  erased from the successor set of each predecessor, in ascending order of address; its
  own lock is released; the deleter is applied to the output and the read targets. So
  every removal runs between the acquisition and the release of the object's own lock,
  and no lock of a predecessor is taken: the locks of all objects are afterwards as they
  were before. Nothing else in the graph changes, and the object's own successor set is
  not checked.
\<close>

theorem destructor_unlinks_under_own_lock:
  assumes "sys_heap s this = Some d"
  shows "(do_objectLock d \<longrightarrow> DependableObject_destructor s this = Inl LockBusy) \<and>
         (\<not> do_objectLock d \<longrightarrow>
          (\<forall>p. p |\<in>| do_predecessors d \<longrightarrow> p \<in> dom (sys_heap s)) \<longrightarrow>
          (\<exists>s'. DependableObject_destructor s this = Inr s' \<and>
             sys_trace s' =
               sys_trace s @ [LockAcquired this]
                 @ map (\<lambda>p. SuccessorErased p this) (sorted_list_of_fset (do_predecessors d))
                 @ [LockReleased this]
                 @ map Deleted (do_outputObjects d) @ map Deleted (do_readObjects d) \<and>
             (\<forall>a. sys_heap s' a =
                    (if a |\<in>| do_predecessors d
                     then map_option (\<lambda>e. e\<lparr>do_successors := do_successors e |-| {|this|}\<rparr>)
                            (sys_heap s a)
                     else sys_heap s a))))"
proof (intro conjI impI)
  assume "do_objectLock d"
  then show "DependableObject_destructor s this = Inl LockBusy"
    using assms
    by (simp add: DependableObject_destructor_def SyncLockBlock_enter_def Lock_acquire_def)
next
  assume free: "\<not> do_objectLock d"
    and live: "\<forall>p. p |\<in>| do_predecessors d \<longrightarrow> p \<in> dom (sys_heap s)"
  let ?s0 = "emit (update_object s this (\<lambda>d. d\<lparr>do_objectLock := True\<rparr>)) [LockAcquired this]"
  have enter: "SyncLockBlock_enter s this = Inr ?s0"
    using assms free by (simp add: SyncLockBlock_enter_def Lock_acquire_def)
  have "set (sorted_list_of_fset (do_predecessors d)) \<subseteq> dom (sys_heap ?s0)"
    using live by (auto simp: emit_def update_object_def)
  from delete_from_predecessors_effect[OF this, of this] obtain s1 where
    s1: "delete_from_predecessors (sorted_list_of_fset (do_predecessors d)) this ?s0 = Inr s1"
        "sys_trace s1 = sys_trace ?s0
           @ map (\<lambda>p. SuccessorErased p this) (sorted_list_of_fset (do_predecessors d))"
        "\<forall>a. sys_heap s1 a =
                  (if a \<in> set (sorted_list_of_fset (do_predecessors d))
                   then map_option (\<lambda>e. e\<lparr>do_successors := do_successors e |-| {|this|}\<rparr>)
                          (sys_heap ?s0 a)
                   else sys_heap ?s0 a)"
    by blast
  let ?s' = "emit (SyncLockBlock_leave s1 this)
               (map Deleted (do_outputObjects d) @ map Deleted (do_readObjects d))"
  have run: "DependableObject_destructor s this = Inr ?s'"
    using assms enter s1(1) by (simp add: DependableObject_destructor_def)
  have tr: "sys_trace ?s' =
               sys_trace s @ [LockAcquired this]
                 @ map (\<lambda>p. SuccessorErased p this) (sorted_list_of_fset (do_predecessors d))
                 @ [LockReleased this]
                 @ map Deleted (do_outputObjects d) @ map Deleted (do_readObjects d)"
    using s1(2) by (simp add: SyncLockBlock_leave_def emit_def update_object_def)
  have hp: "\<forall>a. sys_heap ?s' a =
                    (if a |\<in>| do_predecessors d
                     then map_option (\<lambda>e. e\<lparr>do_successors := do_successors e |-| {|this|}\<rparr>)
                            (sys_heap s a)
                     else sys_heap s a)"
    using s1(3) assms free
    by (auto simp: SyncLockBlock_leave_def emit_def update_object_def Lock_release_def
          free_lock_release)
  show "\<exists>s'. DependableObject_destructor s this = Inr s' \<and>
             sys_trace s' =
               sys_trace s @ [LockAcquired this]
                 @ map (\<lambda>p. SuccessorErased p this) (sorted_list_of_fset (do_predecessors d))
                 @ [LockReleased this]
                 @ map Deleted (do_outputObjects d) @ map Deleted (do_readObjects d) \<and>
             (\<forall>a. sys_heap s' a =
                    (if a |\<in>| do_predecessors d
                     then map_option (\<lambda>e. e\<lparr>do_successors := do_successors e |-| {|this|}\<rparr>)
                            (sys_heap s a)
                     else sys_heap s a))"
    using run tr hp by blast
qed

theorem destructor_unlinks_under_own_lock_witness:
  "DependableObject_destructor
     \<lparr>sys_heap = [2 \<mapsto> example_object\<lparr>do_objectLock := True\<rparr>], sys_trace = []\<rparr> 2
     = Inl LockBusy \<and>
   (\<exists>s'. DependableObject_destructor
           \<lparr>sys_heap = [1 \<mapsto> example_object\<lparr>do_successors := {|4|}\<rparr>,
                         2 \<mapsto> example_object\<lparr>do_successors := {|4|}\<rparr>,
                         4 \<mapsto> example_object\<lparr>do_predecessors := {|2, 1|}, do_outputObjects := [7],
                                                 do_readObjects := [8]\<rparr>],
            sys_trace = []\<rparr> 4 = Inr s' \<and>
         sys_trace s' = [LockAcquired 4, SuccessorErased 1 4, SuccessorErased 2 4,
                         LockReleased 4, Deleted 7, Deleted 8] \<and>
         sys_heap s' 1 = Some example_object \<and>
         sys_heap s' 2 = Some example_object \<and>
         sys_heap s' 4 = Some (example_object\<lparr>do_predecessors := {|2, 1|}, do_outputObjects := [7],
                                                 do_readObjects := [8]\<rparr>))"
  using destructor_unlinks_under_own_lock
          [of "\<lparr>sys_heap = [2 \<mapsto> example_object\<lparr>do_objectLock := True\<rparr>], sys_trace = []\<rparr>" 2
              "example_object\<lparr>do_objectLock := True\<rparr>"]
        destructor_unlinks_under_own_lock
          [of "\<lparr>sys_heap = [1 \<mapsto> example_object\<lparr>do_successors := {|4|}\<rparr>,
                         2 \<mapsto> example_object\<lparr>do_successors := {|4|}\<rparr>,
                         4 \<mapsto> example_object\<lparr>do_predecessors := {|2, 1|}, do_outputObjects := [7],
                                                 do_readObjects := [8]\<rparr>],
            sys_trace = []\<rparr>" 4
              "example_object\<lparr>do_predecessors := {|2, 1|}, do_outputObjects := [7],
                                                 do_readObjects := [8]\<rparr>"]
  by (auto simp add: example_object_def sorted_list_of_fset_finsert sorted_list_of_fset_empty)

text \<open>
  The claim as stated fails: the object at address 2 has the predecessor at address 1,
  whose lock another thread holds, and a successor at address 3. Its destructor erases
  it from the successors of 1 between the acquisition and the release of the lock of 2,
  without the lock of 1, and completes although its own successor set is not empty.
\<close>

theorem destructor_locks_counterexample:
  "DependableObject_destructor
     \<lparr>sys_heap = [1 \<mapsto> example_object\<lparr>do_successors := {|2|}, do_objectLock := True\<rparr>,
                   2 \<mapsto> example_object\<lparr>do_predecessors := {|1|}, do_successors := {|3|}\<rparr>],
      sys_trace = []\<rparr> 2
     = Inr \<lparr>sys_heap = [1 \<mapsto> example_object\<lparr>do_objectLock := True\<rparr>,
                         2 \<mapsto> example_object\<lparr>do_predecessors := {|1|}, do_successors := {|3|}\<rparr>],
            sys_trace = [LockAcquired 2, SuccessorErased 1 2, LockReleased 2]\<rparr>"
  by (simp add: DependableObject_destructor_def DependableObject_deleteSuccessor_def
        SyncLockBlock_enter_def SyncLockBlock_leave_def update_object_def
        Lock_acquire_def Lock_release_def
        sorted_list_of_fset_finsert sorted_list_of_fset_empty emit_def store_def
        example_object_def fun_upd_twist)


section \<open>Properties of edge insertion\<close>

lemma addSuccessor_twice:
  assumes "sys_heap s this = Some d"
  shows "\<exists>b s1 s2. DependableObject_addSuccessor s this depObj = Inr (b, s1) \<and>
           DependableObject_addSuccessor s1 this depObj = Inr (False, s2) \<and>
           sys_heap s1 =
             (sys_heap s)(this \<mapsto> d\<lparr>do_successors := finsert depObj (do_successors d)\<rparr>) \<and>
           sys_heap s2 = sys_heap s1 \<and>
           sys_trace s2 = sys_trace s1 @ [AtSuccessor depObj this 0 0]"
  using assms by (simp add: DependableObject_addSuccessor_def store_def emit_def)

lemma Edge_eq_refl: "Edge_eq e e"
  by (simp add: Edge_eq_def)

lemma connect_nodes_found:
  assumes "tg_nodes g source = Some src" and "\<not> node_exit_lock src"
    and "\<lparr>edge_kind = kind, edge_dep_type = dep_type, edge_source = source,
           edge_target = target, edge_data_range = (data_start, data_end)\<rparr>
          \<in> set (node_exit_edges src)"
  shows "Node_connect_nodes g source target kind data_start data_end dep_type = Inr g"
proof -
  let ?e = "\<lparr>edge_kind = kind, edge_dep_type = dep_type, edge_source = source,
           edge_target = target, edge_data_range = (data_start, data_end)\<rparr>"
  have "list_ex (\<lambda>e. Edge_eq e ?e) (Node_get_connections src target)"
    unfolding list_ex_iff Node_get_connections_def
    using assms(3) Edge_eq_refl by force
  moreover have "update_node (update_node g source (\<lambda>n. n\<lparr>node_exit_lock := True\<rparr>)) source
            (\<lambda>n. n\<lparr>node_exit_lock := Lock_release (node_exit_lock n)\<rparr>) = g"
    using assms(1,2) by (simp add: update_node_def Lock_release_def fun_upd_idem)
  ultimately show ?thesis
    using assms(1,2) by (simp add: Node_connect_nodes_def Lock_acquire_def Let_def)
qed

lemma Edge_eq_iff: "Edge_eq (e :: Edge) e' \<longleftrightarrow> e = e'"
  by (cases e, cases e') (auto simp: Edge_eq_def)

lemma connect_nodes_result:
  assumes "Node_connect_nodes g source target kind data_start data_end dep_type = Inr g1"
  shows "\<exists>src. tg_nodes g1 source = Some src \<and> \<not> node_exit_lock src \<and>
           \<lparr>edge_kind = kind, edge_dep_type = dep_type, edge_source = source,
            edge_target = target, edge_data_range = (data_start, data_end)\<rparr>
             \<in> set (node_exit_edges src)"
  using assms
  by (auto simp: Node_connect_nodes_def Lock_acquire_def Lock_release_def Let_def
        update_node_def list_ex_iff Node_get_connections_def Edge_eq_iff
        split: option.splits if_splits)

lemma connect_nodes_twice:
  assumes "Node_connect_nodes g source target kind data_start data_end dep_type = Inr g1"
  shows "Node_connect_nodes g1 source target kind data_start data_end dep_type = Inr g1"
  using connect_nodes_result[OF assms] connect_nodes_found by blast

text \<open>
  C5. Adding the same successor to a live object a second time returns false and leaves
  every successor set as the first call left it; the scheduler hook is called
  again. Connecting two nodes of the task graph dump a second time with the same kind,
  dependency type and data range, after a first call that returned, returns with the
  graph exactly as the first call left it: the edge lists, the array of used edge types
  and the locks.
\<close>

theorem edge_insertion_idempotent:
  "(sys_heap s this = Some d \<longrightarrow>
      (\<exists>b s1 s2. DependableObject_addSuccessor s this depObj = Inr (b, s1) \<and>
          DependableObject_addSuccessor s1 this depObj = Inr (False, s2) \<and>
          sys_heap s1 =
            (sys_heap s)(this \<mapsto> d\<lparr>do_successors := finsert depObj (do_successors d)\<rparr>) \<and>
          sys_heap s2 = sys_heap s1 \<and>
          sys_trace s2 = sys_trace s1 @ [AtSuccessor depObj this 0 0])) \<and>
   (Node_connect_nodes g source target kind data_start data_end dep_type = Inr g1 \<longrightarrow>
      Node_connect_nodes g1 source target kind data_start data_end dep_type = Inr g1)"
  using addSuccessor_twice connect_nodes_twice by blast

theorem edge_insertion_idempotent_witness:
  "(\<exists>b s1 s2.
      DependableObject_addSuccessor \<lparr>sys_heap = [1 \<mapsto> example_object], sys_trace = []\<rparr> 1 2
        = Inr (b, s1) \<and>
      DependableObject_addSuccessor s1 1 2 = Inr (False, s2) \<and>
      sys_heap s1 = [1 \<mapsto> example_object\<lparr>do_successors := {|2|}\<rparr>] \<and>
      sys_heap s2 = sys_heap s1 \<and>
      sys_trace s2 = sys_trace s1 @ [AtSuccessor 2 1 0 0]) \<and>
   Node_connect_nodes
     \<lparr>tg_nodes = [1 \<mapsto> example_node, 2 \<mapsto> example_node], used_edge_types = [0, 0, 0, 0, 0]\<rparr>
     1 2 Dependency 100 163 TrueDep
     = Inr \<lparr>tg_nodes =
              [1 \<mapsto> example_node\<lparr>node_exit_edges :=
                         [\<lparr>edge_kind = Dependency, edge_dep_type = TrueDep, edge_source = 1,
                           edge_target = 2, edge_data_range = (100, 163)\<rparr>]\<rparr>,
               2 \<mapsto> example_node\<lparr>node_entry_edges :=
                         [\<lparr>edge_kind = Dependency, edge_dep_type = TrueDep, edge_source = 1,
                           edge_target = 2, edge_data_range = (100, 163)\<rparr>]\<rparr>],
            used_edge_types = [1, 0, 0, 0, 0]\<rparr> \<and>
   Node_connect_nodes
     \<lparr>tg_nodes =
              [1 \<mapsto> example_node\<lparr>node_exit_edges :=
                         [\<lparr>edge_kind = Dependency, edge_dep_type = TrueDep, edge_source = 1,
                           edge_target = 2, edge_data_range = (100, 163)\<rparr>]\<rparr>,
               2 \<mapsto> example_node\<lparr>node_entry_edges :=
                         [\<lparr>edge_kind = Dependency, edge_dep_type = TrueDep, edge_source = 1,
                           edge_target = 2, edge_data_range = (100, 163)\<rparr>]\<rparr>],
            used_edge_types = [1, 0, 0, 0, 0]\<rparr>
     1 2 Dependency 100 163 TrueDep
     = Inr \<lparr>tg_nodes =
              [1 \<mapsto> example_node\<lparr>node_exit_edges :=
                         [\<lparr>edge_kind = Dependency, edge_dep_type = TrueDep, edge_source = 1,
                           edge_target = 2, edge_data_range = (100, 163)\<rparr>]\<rparr>,
               2 \<mapsto> example_node\<lparr>node_entry_edges :=
                         [\<lparr>edge_kind = Dependency, edge_dep_type = TrueDep, edge_source = 1,
                           edge_target = 2, edge_data_range = (100, 163)\<rparr>]\<rparr>],
            used_edge_types = [1, 0, 0, 0, 0]\<rparr>"
proof -
  let ?g = "\<lparr>tg_nodes = [1 \<mapsto> example_node, 2 \<mapsto> example_node], used_edge_types = [0, 0, 0, 0, 0]\<rparr>"
  let ?e = "\<lparr>edge_kind = Dependency, edge_dep_type = TrueDep, edge_source = 1,
                           edge_target = 2, edge_data_range = (100, 163)\<rparr>"
  let ?g1 = "\<lparr>tg_nodes =
              [1 \<mapsto> example_node\<lparr>node_exit_edges := [?e]\<rparr>,
               2 \<mapsto> example_node\<lparr>node_entry_edges := [?e]\<rparr>],
            used_edge_types = [1, 0, 0, 0, 0]\<rparr>"
  have first: "Node_connect_nodes ?g 1 2 Dependency 100 163 TrueDep = Inr ?g1"
    by (simp add: Node_connect_nodes_def Lock_acquire_def Lock_release_def Let_def
          update_node_def Node_get_connections_def Node_is_critical_def
          store_used_edge_type_def example_node_def fun_upd_twist)
  show ?thesis
    using first
      edge_insertion_idempotent
        [of "\<lparr>sys_heap = [1 \<mapsto> example_object], sys_trace = []\<rparr>" 1 example_object 2
            ?g 1 2 Dependency 100 163 TrueDep ?g1]
    by (simp add: example_object_def)
qed


section \<open>Properties of \<open>nanos_cmalloc\<close>\<close>

text \<open>
  C10. For a node index that is not below the number of nodes, \<open>nanos_cmalloc\<close>
  returns \<open>NANOS_INVALID_PARAM\<close>, makes no call to the allocator or the runtime system
  and leaves \<open>*p\<close> alone. For a valid node it allocates with \<open>allocate\<close> for node 0
  and with \<open>allocate_none\<close> otherwise, registers the memory and returns \<open>NANOS_OK\<close>;
  when the allocation throws an error code, it returns that code and registers nothing.
\<close>

theorem nanos_cmalloc_contract:
  "(getNumNodes env \<le> node \<longrightarrow>
      nanos_cmalloc env p sz node = (Inr NANOS_INVALID_PARAM, p, [])) \<and>
   (node < getNumNodes env \<longrightarrow> node = 0 \<longrightarrow> allocate env sz = Normal q \<longrightarrow>
      registerNodeOwnedMemory env node q sz = Normal () \<longrightarrow>
      nanos_cmalloc env p sz node
        = (Inr NANOS_OK, q, [Allocate sz, RegisterNodeOwnedMemory node q sz])) \<and>
   (node < getNumNodes env \<longrightarrow> node \<noteq> 0 \<longrightarrow> allocate_none env sz = Normal q \<longrightarrow>
      registerNodeOwnedMemory env node q sz = Normal () \<longrightarrow>
      nanos_cmalloc env p sz node
        = (Inr NANOS_OK, q, [AllocateNone sz, RegisterNodeOwnedMemory node q sz])) \<and>
   (node < getNumNodes env \<longrightarrow> node = 0 \<longrightarrow> allocate env sz = Throws e \<longrightarrow>
      nanos_cmalloc env p sz node = (Inr e, p, [Allocate sz])) \<and>
   (node < getNumNodes env \<longrightarrow> node \<noteq> 0 \<longrightarrow> allocate_none env sz = Throws e \<longrightarrow>
      nanos_cmalloc env p sz node = (Inr e, p, [AllocateNone sz]))"
  by (auto simp add: nanos_cmalloc_def)

theorem nanos_cmalloc_contract_witness:
  "nanos_cmalloc example_env NULL 64 2 = (Inr NANOS_INVALID_PARAM, NULL, []) \<and>
   nanos_cmalloc example_env NULL 64 0
     = (Inr NANOS_OK, 4096, [Allocate 64, RegisterNodeOwnedMemory 0 4096 64]) \<and>
   nanos_cmalloc example_env NULL 64 1
     = (Inr NANOS_OK, 8192, [AllocateNone 64, RegisterNodeOwnedMemory 1 8192 64]) \<and>
   nanos_cmalloc example_env NULL 0 0 = (Inr (NANOS_OTHER_ERR 3), NULL, [Allocate 0])"
  using nanos_cmalloc_contract [of example_env 2 NULL 64 4096 NANOS_OK]
        nanos_cmalloc_contract [of example_env 0 NULL 64 4096 NANOS_OK]
        nanos_cmalloc_contract [of example_env 1 NULL 64 8192 NANOS_OK]
        nanos_cmalloc_contract [of example_env 0 NULL 0 4096 "NANOS_OTHER_ERR 3"]
  by (simp add: example_env_def)

end
